theory Spec2Isabelle
  imports Complex_Main "HOL-Library.Sublist" "HOL-Library.Multiset"
begin

section \<open>Python values and library operations used by the code\<close>

text \<open>
  Exceptions are values: every operation that can raise returns \<open>py_error + 'a\<close>, with
  \<open>Inl\<close> the exception. \<open>bindE\<close> sequences two statements: the second runs only when the
  first did not raise, so an exception propagates to the caller unchanged.
\<close>

datatype py_error =
  FileNotFoundError | OSError | IndexError | KeyError | RuntimeError | ValueError | TypeError

definition bindE :: "py_error + 'a \<Rightarrow> ('a \<Rightarrow> py_error + 'b) \<Rightarrow> py_error + 'b" where
  "bindE m f = (case m of Inl e \<Rightarrow> Inl e | Inr x \<Rightarrow> f x)"

text \<open>
  A Python dict literal is an association list in insertion order; \<open>d[k]\<close> raises
  \<open>KeyError\<close> on a missing key.
\<close>

type_synonym 'v dict = "(string \<times> 'v) list"

definition dict_get :: "'v dict \<Rightarrow> string \<Rightarrow> py_error + 'v" where
  "dict_get d k = (case map_of d k of None \<Rightarrow> Inl KeyError | Some v \<Rightarrow> Inr v)"

text \<open>
  A cell of the data frame that \<open>pd.read_csv\<close> delivers: text, the float NaN that
  stands for an empty or NA cell, or a number or truth value where the whole column
  parses as such. Subscripting a dict whose keys are strings with a cell finds only text:
  NaN, a number or a truth value equals no string key.
\<close>

datatype cell = Str string | Float_nan | Int64 int | Float64 real | Boolean bool

definition subscript :: "'v dict \<Rightarrow> cell \<Rightarrow> py_error + 'v" where
  "subscript d key = (case key of Str k \<Rightarrow> dict_get d k | _ \<Rightarrow> Inl KeyError)"

text \<open>Python's \<open>s in t\<close> on strings: \<open>s\<close> occurs in \<open>t\<close> as a contiguous substring.\<close>

definition str_in :: "string \<Rightarrow> string \<Rightarrow> bool" where
  "str_in s t = sublist s t"

text \<open>
  Tensors of rank 0, 1 and 2, as nested lists. \<open>flatten\<close> always gives rank 1;
  \<open>squeeze\<close> drops every dimension of size 1.
\<close>

datatype 'a tensor = T0 'a | T1 "'a list" | T2 "'a list list"

fun flatten :: "'a tensor \<Rightarrow> 'a tensor" where
  "flatten (T0 x) = T1 [x]"
| "flatten (T1 xs) = T1 xs"
| "flatten (T2 rows) = T1 (concat rows)"

fun squeeze1 :: "'a list \<Rightarrow> 'a tensor" where
  "squeeze1 [x] = T0 x"
| "squeeze1 xs = T1 xs"

fun squeeze :: "'a tensor \<Rightarrow> 'a tensor" where
  "squeeze (T0 x) = T0 x"
| "squeeze (T1 xs) = squeeze1 xs"
| "squeeze (T2 []) = T2 []"
| "squeeze (T2 [row]) = squeeze1 row"
| "squeeze (T2 rows) =
     (if list_all (\<lambda>r. length r = 1) rows then T1 (concat rows) else T2 rows)"

text \<open>
  \<open>torch.nn.functional.one_hot(torch.tensor(label), num_classes)\<close> on a rank-0 index
  tensor: class values must be non-negative; \<open>num_classes = -1\<close> infers the length as
  \<open>label + 1\<close>; otherwise the class value must be smaller than \<open>num_classes\<close>. Both
  violations raise \<open>RuntimeError\<close>. The result is an integer vector with a single 1.
\<close>

definition one_hot :: "int \<Rightarrow> int \<Rightarrow> py_error + int list" where
  "one_hot label n =
     (if label < 0 then Inl RuntimeError
      else if n = - 1 then Inr (map (\<lambda>j. if j = nat label then 1 else 0) [0..<nat label + 1])
      else if n \<le> label then Inl RuntimeError
      else Inr (map (\<lambda>j. if j = nat label then 1 else 0) [0..<nat n]))"

text \<open>\<open>.float()\<close>: the same entries as floating-point numbers, here reals.\<close>

definition to_float :: "int list \<Rightarrow> real list" where
  "to_float xs = map real_of_int xs"

section \<open>The dataset adapter (dataset.py)\<close>

text \<open>
  The hyperparameter object: the attributes the two files read. \<open>freeze\<close> is a string,
  compared with the literal \<open>'true'\<close>.
\<close>

record hyperparameters =
  upstream_model :: string
  num_classes :: int
  lr :: real
  weight_decay :: real
  epochs :: int
  freeze :: string

text \<open>
  The tokenizer comes from the model hub and is not code of this repository. What the
  adapter relies on is kept: the sub-word ids of a sentence (\<open>tokenize\<close>), the special
  tokens the tokenizer puts before and after them, its padding id (a tokenizer may have
  none) and side, and whether it is a fast tokenizer (\<open>use_fast=True\<close> asks for one and
  gets the slow one where no fast one exists).
\<close>

record tokenizer =
  tokenize :: "string \<Rightarrow> int list"
  prefix_tokens :: "int list"
  suffix_tokens :: "int list"
  pad_token_id :: "int option"
  pad_left :: bool
  is_fast :: bool

record encoding =
  enc_input_ids :: "int tensor"
  enc_attention_mask :: "int tensor"

text \<open>
  \<open>encode_plus(sentence, max_length=n, padding='max_length', truncation=True,
  add_special_tokens=True, return_attention_mask=True, return_tensors='pt')\<close>.
  Padding is asked for, so a tokenizer without a padding token (or with a negative
  padding id) is refused first, with \<open>ValueError\<close>. An input that is not text is
  refused next: with \<open>TypeError\<close> by a fast tokenizer, with \<open>ValueError\<close> by a slow
  one. For text, the sub-word ids are truncated so that they fit in \<open>n\<close> together with
  the special tokens, the special tokens are added, and the sequence is padded to \<open>n\<close>;
  the mask is 1 on real tokens and 0 on padding. Both come back as tensors of shape
  \<open>(1, n)\<close>.
\<close>

definition pad_and_truncate :: "tokenizer \<Rightarrow> int \<Rightarrow> string \<Rightarrow> nat \<Rightarrow> encoding" where
  "pad_and_truncate tok pad_id sentence max_length =
     (let n_special = length (prefix_tokens tok) + length (suffix_tokens tok);
          ids = prefix_tokens tok @ take (max_length - n_special) (tokenize tok sentence)
                  @ suffix_tokens tok;
          n_pad = max_length - length ids;
          pad = replicate n_pad pad_id;
          ones = replicate (length ids) 1;
          zeros = replicate n_pad 0
      in if pad_left tok
         then \<lparr>enc_input_ids = T2 [pad @ ids], enc_attention_mask = T2 [zeros @ ones]\<rparr>
         else \<lparr>enc_input_ids = T2 [ids @ pad], enc_attention_mask = T2 [ones @ zeros]\<rparr>)"

definition encode_plus :: "tokenizer \<Rightarrow> cell \<Rightarrow> nat \<Rightarrow> py_error + encoding" where
  "encode_plus tok sentence_cell max_length =
     (case pad_token_id tok of
        None \<Rightarrow> Inl ValueError
      | Some pad_id \<Rightarrow>
          if pad_id < 0 then Inl ValueError
          else (case sentence_cell of
                  Str sentence \<Rightarrow> Inr (pad_and_truncate tok pad_id sentence max_length)
                | _ \<Rightarrow> Inl (if is_fast tok then TypeError else ValueError)))"

text \<open>
  The data frame read from the CSV file: its rows, each with the cells of the first two
  columns (sentence, label). \<open>df.iloc[idx, col]\<close> is positional: a negative row index
  counts from the end, and an index outside \<open>[-n, n)\<close> raises \<open>IndexError\<close>.
\<close>

type_synonym frame = "(cell \<times> cell) list"

definition iloc :: "frame \<Rightarrow> int \<Rightarrow> nat \<Rightarrow> py_error + cell" where
  "iloc df idx col =
     (let n = int (length df) in
      if idx < - n \<or> n \<le> idx then Inl IndexError
      else let row = df ! nat (if idx < 0 then n + idx else idx) in
        if col = 0 then Inr (fst row)
        else if col = 1 then Inr (snd row)
        else Inl IndexError)"

text \<open>
  File system and model hub are outside the repository: \<open>read_csv\<close> and
  \<open>from_pretrained\<close> are what they answer for a path and for a model identifier.
\<close>

record environment =
  read_csv :: "string \<Rightarrow> py_error + frame"
  from_pretrained :: "string \<Rightarrow> py_error + tokenizer"

record CSLMDataset =
  data :: frame
  hparams :: hyperparameters
  tokenizer :: tokenizer
  labels2num :: "int dict"

definition CSLMDataset_init ::
  "environment \<Rightarrow> string \<Rightarrow> hyperparameters \<Rightarrow> bool \<Rightarrow> py_error + CSLMDataset" where
  "CSLMDataset_init env CSVPath hp is_train =
     bindE (read_csv env CSVPath) (\<lambda>d.
     bindE (from_pretrained env (upstream_model hp)) (\<lambda>tok.
       Inr \<lparr>data = d, hparams = hp, tokenizer = tok,
            labels2num = [(''positive'', 0), (''negative'', 1), (''neutral'', 2)]\<rparr>))"

definition len :: "CSLMDataset \<Rightarrow> int" where
  "len self = int (length (data self))"

record item =
  input_ids :: "int tensor"
  attention_mask :: "int tensor"
  labels :: "real list"

definition getitem :: "CSLMDataset \<Rightarrow> int \<Rightarrow> py_error + item" where
  "getitem self idx =
     bindE (iloc (data self) idx 0) (\<lambda>sentence.
     bindE (iloc (data self) idx 1) (\<lambda>label_cell.
     bindE (subscript (labels2num self) label_cell) (\<lambda>label_num.
     bindE (one_hot label_num (num_classes (hparams self))) (\<lambda>target.
     let target_label = to_float target in
     bindE (encode_plus (tokenizer self) sentence 128) (\<lambda>encoding.
       Inr \<lparr>input_ids = flatten (enc_input_ids encoding),
            attention_mask = squeeze (enc_attention_mask encoding),
            labels = target_label\<rparr>)))))"

section \<open>Library operations of the training module\<close>

text \<open>
  Scalars are reals; \<open>NaN\<close> is what a mean over no elements gives, and a mean with a
  \<open>NaN\<close> among its elements is \<open>NaN\<close>.
\<close>

datatype scalar = Val real | NaN

definition mean :: "real list \<Rightarrow> scalar" where
  "mean xs = (if xs = [] then NaN else Val (sum_list xs / real (length xs)))"

fun vals :: "scalar list \<Rightarrow> real list option" where
  "vals [] = Some []"
| "vals (Val x # xs) = map_option (\<lambda>ys. x # ys) (vals xs)"
| "vals (NaN # xs) = None"

text \<open>\<open>torch.tensor(xs).mean()\<close> on a list of scalars.\<close>

definition tensor_mean :: "scalar list \<Rightarrow> scalar" where
  "tensor_mean xs = (case vals xs of None \<Rightarrow> NaN | Some ys \<Rightarrow> mean ys)"

fun mapE :: "('a \<Rightarrow> py_error + 'b) \<Rightarrow> 'a list \<Rightarrow> py_error + 'b list" where
  "mapE f [] = Inr []"
| "mapE f (x # xs) = bindE (f x) (\<lambda>y. bindE (mapE f xs) (\<lambda>ys. Inr (y # ys)))"

text \<open>
  \<open>t.view(-1, c)\<close>: the entries of \<open>t\<close> in row-major order, cut into rows of \<open>c\<close>; the
  number of entries must be a multiple of \<open>c\<close>, and \<open>c\<close> positive.
\<close>

definition view :: "real list list \<Rightarrow> int \<Rightarrow> py_error + real list list" where
  "view t c =
     (let xs = concat t; n = nat c in
      if c \<le> 0 \<or> length xs mod n \<noteq> 0 then Inl RuntimeError
      else Inr (map (\<lambda>i. take n (drop (i * n) xs)) [0..<length xs div n]))"

definition softmax :: "real list list \<Rightarrow> real list list" where
  "softmax t = map (\<lambda>row. map (\<lambda>x. exp x / sum_list (map exp row)) row) t"

text \<open>
  \<open>torch.argmax(t, dim=1)\<close>: for every row the index of its first maximal entry; a row
  without entries has none.
\<close>

fun argmax_from :: "real \<Rightarrow> nat \<Rightarrow> nat \<Rightarrow> real list \<Rightarrow> nat" where
  "argmax_from best k i [] = k"
| "argmax_from best k i (x # xs) =
     (if best < x then argmax_from x i (Suc i) xs else argmax_from best k (Suc i) xs)"

fun argmax_row :: "real list \<Rightarrow> py_error + nat" where
  "argmax_row [] = Inl IndexError"
| "argmax_row (x # xs) = Inr (argmax_from x 0 1 xs)"

definition argmax :: "real list list \<Rightarrow> py_error + nat list" where
  "argmax t = mapE argmax_row t"

text \<open>
  \<open>torch.nn.CrossEntropyLoss()\<close> on raw scores and a floating-point target of the same
  shape (class probabilities): minus the target-weighted log-softmax of each row, averaged
  over the rows. A target of another shape is not accepted.
\<close>

definition log_softmax :: "real list \<Rightarrow> real list" where
  "log_softmax row = map (\<lambda>x. x - ln (sum_list (map exp row))) row"

definition loss_fn :: "real list list \<Rightarrow> real list list \<Rightarrow> py_error + scalar" where
  "loss_fn preds target =
     (if map length preds \<noteq> map length target then Inl RuntimeError
      else Inr (mean (map (\<lambda>(p, t). - sum_list (map (\<lambda>(l, y). l * y) (zip (log_softmax p) t)))
                       (zip preds target))))"

text \<open>
  \<open>torchmetrics.Accuracy(task=..., num_classes=...)\<close>. The multi-class metric wants at
  least two classes. Called on a batch it returns the accuracy of that batch:
  \<^item> multi-class, on float predictions of shape \<open>(N, C)\<close> and integer targets of shape
    \<open>(N)\<close>: \<open>C\<close> must be the number of classes and the targets must not show more
    distinct values than there are classes; the predictions are reduced by argmax along
    the class dimension and compared with the targets entry by entry; the result is the
    share of equal entries (0 for an empty batch);
  \<^item> binary: predictions and targets must have the same shape, which predictions of
    rank 2 and targets of rank 1 never have.
\<close>

datatype task = Binary | Multiclass

record metric =
  metric_task :: task
  metric_num_classes :: int

definition Accuracy :: "string \<Rightarrow> int \<Rightarrow> py_error + metric" where
  "Accuracy task n =
     (if task = ''binary'' then Inr \<lparr>metric_task = Binary, metric_num_classes = n\<rparr>
      else if task = ''multiclass'' then
        (if n < 2 then Inl ValueError else Inr \<lparr>metric_task = Multiclass, metric_num_classes = n\<rparr>)
      else Inl ValueError)"

definition metric_call :: "metric \<Rightarrow> real list list \<Rightarrow> nat list \<Rightarrow> py_error + scalar" where
  "metric_call m preds target =
     (case metric_task m of
        Binary \<Rightarrow> Inl RuntimeError
      | Multiclass \<Rightarrow>
          if \<not> list_all (\<lambda>row. int (length row) = metric_num_classes m) preds then Inl ValueError
          else if metric_num_classes m < int (length (remdups target)) then Inl RuntimeError
          else if length preds \<noteq> length target then Inl RuntimeError
          else bindE (argmax preds) (\<lambda>pred_classes.
            Inr (Val (if preds = [] then 0
                      else real (length (filter (\<lambda>(p, t). p = t) (zip pred_classes target)))
                           / real (length preds)))))"

section \<open>The training module (model.py)\<close>

text \<open>
  A parameter of the network: its entries and whether the optimizer may update it. The
  pretrained network itself is not code of this repository: it is its named parameters,
  in the order \<open>named_parameters()\<close> lists them, and the raw scores it computes from a
  batch of token ids and attention masks.
\<close>

record parameter =
  entries :: "real list"
  requires_grad :: bool

record pretrained_model =
  named_parameters :: "(string \<times> parameter) list"
  logits :: "int list list \<Rightarrow> int list list \<Rightarrow> real list list"

record LightningModel =
  config :: hyperparameters
  model :: pretrained_model
  accuracy :: metric

text \<open>The loop of \<open>__init__\<close> over \<open>named_parameters()\<close> that freezes the encoder.\<close>

fun freeze_loop :: "(string \<times> parameter) list \<Rightarrow> (string \<times> parameter) list" where
  "freeze_loop [] = []"
| "freeze_loop ((name, param) # rest) =
     (if \<not> str_in ''classifier'' name
      then (name, param\<lparr>requires_grad := False\<rparr>) # freeze_loop rest
      else (name, param) # freeze_loop rest)"

text \<open>
  \<open>__init__\<close>. \<open>AutoConfig.from_pretrained\<close> and
  \<open>AutoModelForSequenceClassification.from_pretrained\<close> are one question to the hub: the
  network for a model identifier and a number of labels.
\<close>

definition LightningModel_init ::
  "(string \<Rightarrow> int \<Rightarrow> py_error + pretrained_model) \<Rightarrow> hyperparameters
     \<Rightarrow> py_error + LightningModel" where
  "LightningModel_init hub cfg =
     bindE (hub (upstream_model cfg) (num_classes cfg)) (\<lambda>m.
     let task = (if num_classes cfg = 2 then ''binary'' else ''multiclass'') in
     bindE (Accuracy task (num_classes cfg)) (\<lambda>acc.
     let m' = (if freeze cfg = ''true''
               then m\<lparr>named_parameters := freeze_loop (named_parameters m)\<rparr> else m)
     in Inr \<lparr>config = cfg, model = m', accuracy = acc\<rparr>))"

text \<open>\<open>forward\<close> returns the network's output tuple; without labels it holds the raw scores only.\<close>

definition forward :: "LightningModel \<Rightarrow> int list list \<Rightarrow> int list list \<Rightarrow> real list list list" where
  "forward self input_ids' attention_mask' = [logits (model self) input_ids' attention_mask']"

record batch =
  batch_input_ids :: "int list list"
  batch_attention_mask :: "int list list"
  batch_labels :: "real list list"

definition training_step :: "LightningModel \<Rightarrow> batch \<Rightarrow> nat \<Rightarrow> py_error + scalar dict" where
  "training_step self b batch_idx =
     (let input_ids' = batch_input_ids b;
          labels' = batch_labels b;
          attention_mask' = batch_attention_mask b;
          outputs = forward self input_ids' attention_mask';
          logits' = outputs ! 0
      in bindE (view logits' (num_classes (config self))) (\<lambda>preds.
         let pred_probs = softmax preds in
         bindE (argmax labels') (\<lambda>true_classes.
         bindE (metric_call (accuracy self) preds true_classes) (\<lambda>acc.
         bindE (loss_fn preds labels') (\<lambda>loss.
           Inr [(''loss'', loss), (''acc'', acc)])))))"

definition validation_step :: "LightningModel \<Rightarrow> batch \<Rightarrow> nat \<Rightarrow> nat \<Rightarrow> py_error + scalar dict" where
  "validation_step self b batch_idx dataloader_idx =
     (let input_ids' = batch_input_ids b;
          attention_mask' = batch_attention_mask b;
          outputs = forward self input_ids' attention_mask';
          labels' = batch_labels b;
          logits' = outputs ! 0
      in bindE (view logits' (num_classes (config self))) (\<lambda>preds.
         let pred_probs = softmax preds in
         bindE (argmax labels') (\<lambda>true_classes.
         bindE (metric_call (accuracy self) preds true_classes) (\<lambda>acc.
         bindE (loss_fn preds labels') (\<lambda>loss.
           Inr [(''val_loss'', loss), (''val_acc'', acc)])))))"

definition test_step :: "LightningModel \<Rightarrow> batch \<Rightarrow> nat \<Rightarrow> nat \<Rightarrow> py_error + scalar dict" where
  "test_step self b batch_idx dataloader_idx =
     (let input_ids' = batch_input_ids b;
          attention_mask' = batch_attention_mask b;
          outputs = forward self input_ids' attention_mask';
          labels' = batch_labels b;
          logits' = outputs ! 0
      in bindE (view logits' (num_classes (config self))) (\<lambda>preds.
         let pred_probs = softmax preds in
         bindE (argmax labels') (\<lambda>true_classes.
         bindE (metric_call (accuracy self) preds true_classes) (\<lambda>acc.
         bindE (loss_fn preds labels') (\<lambda>loss.
           Inr [(''test_loss'', loss), (''test_acc'', acc)])))))"

text \<open>
  \<open>self.log(name, value, on_step=False, on_epoch=True, prog_bar=True)\<close> reports to the
  metrics sink: the sink is the list of entries reported so far.
\<close>

record log_entry =
  log_name :: string
  log_value :: scalar
  on_step :: bool
  on_epoch :: bool
  prog_bar :: bool

definition self_log :: "log_entry list \<Rightarrow> string \<Rightarrow> scalar \<Rightarrow> bool \<Rightarrow> bool \<Rightarrow> bool \<Rightarrow> log_entry list" where
  "self_log sink name v step epoch bar =
     sink @ [\<lparr>log_name = name, log_value = v, on_step = step, on_epoch = epoch, prog_bar = bar\<rparr>]"

text \<open>The entry one call \<open>self.log(name, v, on_step=False, on_epoch=True, prog_bar=True)\<close> adds.\<close>

definition epoch_entry :: "string \<Rightarrow> scalar \<Rightarrow> log_entry" where
  "epoch_entry name v =
     \<lparr>log_name = name, log_value = v, on_step = False, on_epoch = True, prog_bar = True\<rparr>"

definition training_epoch_end :: "log_entry list \<Rightarrow> scalar dict list \<Rightarrow> py_error + log_entry list" where
  "training_epoch_end sink outputs =
     bindE (mapE (\<lambda>x. dict_get x ''loss'') outputs) (\<lambda>losses.
     let loss = tensor_mean losses in
     bindE (mapE (\<lambda>x. dict_get x ''acc'') outputs) (\<lambda>accs.
     let train_acc = tensor_mean accs;
         sink1 = self_log sink ''train/loss'' loss False True True
     in Inr (self_log sink1 ''train/acc'' train_acc False True True)))"

definition validation_epoch_end :: "log_entry list \<Rightarrow> scalar dict list \<Rightarrow> py_error + log_entry list" where
  "validation_epoch_end sink outputs =
     bindE (mapE (\<lambda>x. dict_get x ''val_acc'') outputs) (\<lambda>accs.
     let val_acc = tensor_mean accs in
     bindE (mapE (\<lambda>x. dict_get x ''val_loss'') outputs) (\<lambda>losses.
     let loss = tensor_mean losses;
         sink1 = self_log sink ''val/loss'' loss False True True
     in Inr (self_log sink1 ''val/acc'' val_acc False True True)))"

definition test_epoch_end :: "log_entry list \<Rightarrow> scalar dict list \<Rightarrow> py_error + log_entry list" where
  "test_epoch_end sink outputs =
     bindE (mapE (\<lambda>x. dict_get x ''test_acc'') outputs) (\<lambda>accs.
     let train_acc = tensor_mean accs in
     bindE (mapE (\<lambda>x. dict_get x ''test_loss'') outputs) (\<lambda>losses.
     let loss = tensor_mean losses;
         sink1 = self_log sink ''test/loss'' loss False True True
     in Inr (self_log sink1 ''test/acc'' train_acc False True True)))"

text \<open>
  Optimizer and schedule are library objects; the model keeps the arguments they are
  built from. \<open>lr_lambda\<close> is the factor \<open>get_cosine_schedule_with_warmup\<close> applies to
  the learning rate at a step (half a cosine cycle, its default).
\<close>

record param_group =
  params :: "parameter list"
  group_weight_decay :: real

record optimizer =
  param_groups :: "param_group list"
  optimizer_lr :: real
  eps :: real

definition AdamW :: "param_group list \<Rightarrow> real \<Rightarrow> real \<Rightarrow> optimizer" where
  "AdamW groups rate epsilon = \<lparr>param_groups = groups, optimizer_lr = rate, eps = epsilon\<rparr>"

record schedule =
  schedule_optimizer :: optimizer
  num_warmup_steps :: int
  num_training_steps :: int

definition get_cosine_schedule_with_warmup :: "optimizer \<Rightarrow> int \<Rightarrow> int \<Rightarrow> schedule" where
  "get_cosine_schedule_with_warmup opt n_warmup n_training =
     \<lparr>schedule_optimizer = opt, num_warmup_steps = n_warmup, num_training_steps = n_training\<rparr>"

definition lr_lambda :: "schedule \<Rightarrow> int \<Rightarrow> real" where
  "lr_lambda s current_step =
     (if current_step < num_warmup_steps s
      then real_of_int current_step / real_of_int (max 1 (num_warmup_steps s))
      else let progress = real_of_int (current_step - num_warmup_steps s)
                 / real_of_int (max 1 (num_training_steps s - num_warmup_steps s))
           in max 0 (1 / 2 * (1 + cos (pi * (1 / 2) * 2 * progress))))"

record scheduler_config =
  scheduler :: schedule
  interval :: string

definition any_in :: "string list \<Rightarrow> string \<Rightarrow> bool" where
  "any_in no_decay n = list_ex (\<lambda>nd. str_in nd n) no_decay"

definition configure_optimizers :: "LightningModel \<Rightarrow> optimizer list \<times> scheduler_config list" where
  "configure_optimizers self =
     (let adam_epsilon = 1 / 10 ^ 8;
          warmup_steps = (0 :: int);
          m = model self;
          no_decay = [''bias'', ''LayerNorm.weight''];
          optimizer_grouped_parameters =
            [\<lparr>params = map snd (filter (\<lambda>(n, p). \<not> any_in no_decay n) (named_parameters m)),
              group_weight_decay = weight_decay (config self)\<rparr>,
             \<lparr>params = map snd (filter (\<lambda>(n, p). any_in no_decay n) (named_parameters m)),
              group_weight_decay = 0\<rparr>];
          opt = AdamW optimizer_grouped_parameters (lr (config self)) adam_epsilon;
          sched = get_cosine_schedule_with_warmup opt 5 (epochs (config self))
      in ([opt], [\<lparr>scheduler = sched, interval = ''step''\<rparr>]))"

section \<open>A concrete data set\<close>

text \<open>
  A three-row file, a character-level tokenizer with one special token on each side, and
  the hub and file system that serve them: the inputs the properties below are run on.
\<close>

definition example_tokenizer :: tokenizer where
  "example_tokenizer = \<lparr>tokenize = map (\<lambda>c. int (of_char c)), prefix_tokens = [101],
     suffix_tokens = [102], pad_token_id = Some 0, pad_left = False, is_fast = True\<rparr>"

definition example_hparams :: hyperparameters where
  "example_hparams = \<lparr>upstream_model = ''bert-base-multilingual-cased'', num_classes = 3,
     lr = 1 / 100000, weight_decay = 1 / 100, epochs = 10, freeze = ''true''\<rparr>"

definition example_frame :: frame where
  "example_frame =
     [(Str ''good movie'', Str ''positive''), (Str ''so so'', Str ''mixed''),
      (Str ''it is ok'', Str ''neutral'')]"

definition example_env :: environment where
  "example_env =
     \<lparr>read_csv = (\<lambda>p. if p = ''train.csv'' then Inr example_frame else Inl FileNotFoundError),
      from_pretrained = (\<lambda>m. if m = ''bert-base-multilingual-cased''
         then Inr example_tokenizer else Inl OSError)\<rparr>"

definition example_dataset :: "hyperparameters \<Rightarrow> CSLMDataset" where
  "example_dataset hp = \<lparr>data = example_frame, hparams = hp, tokenizer = example_tokenizer,
     labels2num = [(''positive'', 0), (''negative'', 1), (''neutral'', 2)]\<rparr>"

text \<open>
  The same adapter over a file whose first sentence cell is empty and whose second is a
  number, and over the first file with a tokenizer that has no padding token.
\<close>

definition example_dataset_na :: CSLMDataset where
  "example_dataset_na =
     (example_dataset example_hparams)
       \<lparr>data := [(Float_nan, Str ''positive''), (Int64 7, Str ''negative'')]\<rparr>"

definition example_dataset_nopad :: CSLMDataset where
  "example_dataset_nopad =
     (example_dataset example_hparams)
       \<lparr>tokenizer := example_tokenizer\<lparr>pad_token_id := None\<rparr>\<rparr>"

text \<open>
  A network with six named parameters, all updatable as loaded, whose raw scores are
  those of the specification's accuracy example, and a batch with that example's labels.
\<close>

definition example_parameters :: "(string \<times> parameter) list" where
  "example_parameters =
     [(''bert.embeddings.word_embeddings.weight'', \<lparr>entries = [1, 2], requires_grad = True\<rparr>),
      (''bert.embeddings.LayerNorm.weight'', \<lparr>entries = [3], requires_grad = True\<rparr>),
      (''bert.embeddings.LayerNorm.bias'', \<lparr>entries = [4], requires_grad = True\<rparr>),
      (''bert.pooler.dense.weight'', \<lparr>entries = [5, 6], requires_grad = True\<rparr>),
      (''classifier.weight'', \<lparr>entries = [7, 8, 9], requires_grad = True\<rparr>),
      (''classifier.bias'', \<lparr>entries = [10], requires_grad = True\<rparr>)]"

definition example_network :: "int \<Rightarrow> pretrained_model" where
  "example_network n =
     \<lparr>named_parameters = example_parameters,
      logits = (\<lambda>ids m. if n = 2 then [[2, 1], [0, 1]] else [[2, 1, 0], [0, 1, 2]])\<rparr>"

definition example_hub :: "string \<Rightarrow> int \<Rightarrow> py_error + pretrained_model" where
  "example_hub name n =
     (if name = ''bert-base-multilingual-cased'' then Inr (example_network n) else Inl OSError)"

definition example_model :: "int \<Rightarrow> LightningModel" where
  "example_model n =
     \<lparr>config = example_hparams\<lparr>num_classes := n\<rparr>,
      model = (example_network n)\<lparr>named_parameters := freeze_loop example_parameters\<rparr>,
      accuracy = \<lparr>metric_task = (if n = 2 then Binary else Multiclass), metric_num_classes = n\<rparr>\<rparr>"

definition example_batch :: batch where
  "example_batch =
     \<lparr>batch_input_ids = [[101, 7, 102], [101, 8, 102]],
      batch_attention_mask = [[1, 1, 1], [1, 1, 1]],
      batch_labels = [[1, 0, 0], [0, 0, 1]]\<rparr>"

definition example_batch2 :: batch where
  "example_batch2 =
     \<lparr>batch_input_ids = [[101, 7, 102], [101, 8, 102]],
      batch_attention_mask = [[1, 1, 1], [1, 1, 1]],
      batch_labels = [[1, 0], [0, 1]]\<rparr>"

section \<open>Properties of the dataset adapter\<close>

lemma squeeze1_long: "length xs \<noteq> 1 \<Longrightarrow> squeeze1 xs = T1 xs"
  by (cases xs rule: squeeze1.cases) auto

lemma pad_and_truncate_ids:
  assumes "length (prefix_tokens tok) + length (suffix_tokens tok) \<le> n"
  shows "\<exists>ids. enc_input_ids (pad_and_truncate tok p s n) = T2 [ids] \<and> length ids = n"
  using assms by (auto simp: pad_and_truncate_def Let_def)

lemma pad_and_truncate_mask:
  assumes "length (prefix_tokens tok) + length (suffix_tokens tok) \<le> n"
  shows "\<exists>m. enc_attention_mask (pad_and_truncate tok p s n) = T2 [m] \<and> length m = n"
  using assms by (auto simp: pad_and_truncate_def Let_def)

lemma encode_plus_text:
  assumes "pad_token_id tok = Some p" "0 \<le> p"
  shows "encode_plus tok (Str s) n = Inr (pad_and_truncate tok p s n)"
  using assms by (simp add: encode_plus_def)

lemma encode_plus_not_IndexError: "encode_plus tok c n \<noteq> Inl IndexError"
  by (auto simp: encode_plus_def split: option.splits cell.splits)

lemma one_hot_ok:
  assumes "0 \<le> k" "k < n"
  shows "one_hot k n = Inr (map (\<lambda>j. if j = nat k then 1 else 0) [0..<nat n])"
  using assms by (auto simp: one_hot_def)

lemma one_hot_sum:
  "sum_list (to_float (map (\<lambda>j. if j = k then 1 else 0) [0..<n])) = (if k < n then 1 else 0)"
  by (induction n) (auto simp: to_float_def)

lemma one_hot_ones:
  "length (filter (\<lambda>y. y = 1) (to_float (map (\<lambda>j. if j = k then 1 else 0) [0..<n])))
     = (if k < n then 1 else 0)"
  by (induction n) (auto simp: to_float_def)

lemma one_hot_zeros:
  "length (filter (\<lambda>y. y = 0) (to_float (map (\<lambda>j. if j = k then 1 else 0) [0..<n])))
     = (if k < n then n - 1 else n)"
  by (induction n) (auto simp: to_float_def)

lemma init_fields:
  assumes "CSLMDataset_init env p hp b = Inr self"
  shows "hparams self = hp" "labels2num self = [(''positive'', 0), (''negative'', 1), (''neutral'', 2)]"
    "read_csv env p = Inr (data self)" "from_pretrained env (upstream_model hp) = Inr (tokenizer self)"
  using assms by (auto simp: CSLMDataset_init_def bindE_def split: sum.splits)

lemma iloc_valid:
  assumes "- int (length df) \<le> idx" "idx < int (length df)"
  shows "iloc df idx 0 = Inr (fst (df ! nat (if idx < 0 then int (length df) + idx else idx)))"
    "iloc df idx 1 = Inr (snd (df ! nat (if idx < 0 then int (length df) + idx else idx)))"
  using assms by (auto simp: iloc_def Let_def)

lemma iloc_invalid:
  assumes "idx < - int (length df) \<or> int (length df) \<le> idx"
  shows "iloc df idx c = Inl IndexError"
  using assms by (auto simp: iloc_def Let_def)

lemma example_init:
  "CSLMDataset_init example_env ''train.csv'' (example_hparams\<lparr>num_classes := n\<rparr>) b
     = Inr (example_dataset (example_hparams\<lparr>num_classes := n\<rparr>))"
  by (simp add: CSLMDataset_init_def example_env_def example_hparams_def example_dataset_def bindE_def)

lemma getitem_row:
  assumes "- len self \<le> idx" "idx < len self"
  shows "getitem self idx =
     (let row = data self ! nat (if idx < 0 then len self + idx else idx) in
      bindE (subscript (labels2num self) (snd row)) (\<lambda>label_num.
      bindE (one_hot label_num (num_classes (hparams self))) (\<lambda>target.
      bindE (encode_plus (tokenizer self) (fst row) 128) (\<lambda>encoding.
        Inr \<lparr>input_ids = flatten (enc_input_ids encoding),
             attention_mask = squeeze (enc_attention_mask encoding),
             labels = to_float target\<rparr>))))"
  using assms iloc_valid[of "data self" idx]
  unfolding len_def getitem_def bindE_def Let_def by simp

lemma getitem_IndexError:
  assumes "idx < - len self \<or> len self \<le> idx"
  shows "getitem self idx = Inl IndexError"
  using assms iloc_invalid[of idx "data self" 0]
  by (simp add: getitem_def len_def bindE_def)

lemma subscript_not_IndexError: "subscript d c \<noteq> Inl IndexError"
  by (auto simp: subscript_def dict_get_def split: cell.splits option.splits)

lemma one_hot_not_IndexError: "one_hot k n \<noteq> Inl IndexError"
  by (auto simp: one_hot_def)

lemma getitem_row_not_IndexError:
  assumes "- len self \<le> idx" "idx < len self"
  shows "getitem self idx \<noteq> Inl IndexError"
  using assms subscript_not_IndexError one_hot_not_IndexError encode_plus_not_IndexError
  by (auto simp: getitem_row bindE_def Let_def split: sum.splits)

text \<open>
  Claim C1, as the code has it. For an adapter built by the constructor, every index
  \<open>idx\<close> in \<open>[0, len)\<close> whose row holds text in its sentence cell and a label of the
  vocabulary, with class index \<open>k\<close> smaller than \<open>num_classes\<close>, yields an item: a flat
  token-id sequence and a flat attention mask of exactly 128 entries each (the
  \<open>max_length\<close> the code passes), and a label vector of exactly \<open>num_classes\<close> reals
  that sums to 1, with exactly one entry equal to 1 and all the others equal to 0. The
  tokenizer must have a padding token, and its special tokens must fit in the 128
  positions.
\<close>

theorem C1_getitem_shapes:
  assumes init: "CSLMDataset_init env CSVPath hp is_train = Inr self"
    and idx: "0 \<le> idx" "idx < len self"
    and sen: "fst (data self ! nat idx) = Str sentence"
    and lab: "subscript (labels2num self) (snd (data self ! nat idx)) = Inr k"
    and cls: "k < num_classes hp"
    and pad: "pad_token_id (tokenizer self) = Some p" "0 \<le> p"
    and tok: "length (prefix_tokens (tokenizer self)) + length (suffix_tokens (tokenizer self)) \<le> 128"
  shows "\<exists>ids mask ys.
      getitem self idx = Inr \<lparr>input_ids = T1 ids, attention_mask = T1 mask, labels = ys\<rparr>
      \<and> length ids = 128 \<and> length mask = 128
      \<and> int (length ys) = num_classes hp \<and> sum_list ys = 1
      \<and> length (filter (\<lambda>y. y = 1) ys) = 1
      \<and> length (filter (\<lambda>y. y = 0) ys) = length ys - 1"
proof -
  let ?row = "data self ! nat idx"
  let ?oh = "map (\<lambda>j. if j = nat k then (1::int) else 0) [0..<nat (num_classes hp)]"
  let ?enc = "pad_and_truncate (tokenizer self) p sentence 128"
  have k0: "0 \<le> k"
    using lab init_fields(2)[OF init]
    by (auto simp: subscript_def dict_get_def split: cell.splits if_splits)
  have oh: "one_hot k (num_classes (hparams self)) = Inr ?oh"
    using one_hot_ok[OF k0 cls] init_fields(1)[OF init] by simp
  have enc: "encode_plus (tokenizer self) (fst ?row) 128 = Inr ?enc"
    using encode_plus_text[OF pad] sen by simp
  obtain ids where ids: "enc_input_ids ?enc = T2 [ids]" "length ids = 128"
    using pad_and_truncate_ids[OF tok] by blast
  obtain mask where mask: "enc_attention_mask ?enc = T2 [mask]" "length mask = 128"
    using pad_and_truncate_mask[OF tok] by blast
  have sq: "squeeze (T2 [mask]) = T1 mask"
    using mask(2) by (simp add: squeeze1_long)
  have get: "getitem self idx = Inr \<lparr>input_ids = T1 ids, attention_mask = T1 mask, labels = to_float ?oh\<rparr>"
    using idx lab oh enc ids(1) mask(1) sq
    by (simp add: getitem_row bindE_def Let_def)
  have kn: "nat k < nat (num_classes hp)"
    using k0 cls by simp
  have len: "int (length (to_float ?oh)) = num_classes hp"
    using k0 cls by (simp add: to_float_def)
  have sum: "sum_list (to_float ?oh) = 1"
    using kn by (simp only: one_hot_sum if_True)
  have ones: "length (filter (\<lambda>y. y = 1) (to_float ?oh)) = 1"
    using kn by (simp only: one_hot_ones if_True)
  have zeros: "length (filter (\<lambda>y. y = 0) (to_float ?oh)) = length (to_float ?oh) - 1"
  proof -
    have "length (to_float ?oh) = nat (num_classes hp)"
      by (simp add: to_float_def)
    then show ?thesis
      using kn by (simp only: one_hot_zeros if_True)
  qed
  show ?thesis
    using get ids(2) mask(2) len sum ones zeros by blast
qed

theorem C1_getitem_shapes_witness:
  "\<exists>ids mask ys.
      getitem (example_dataset example_hparams) 2
        = Inr \<lparr>input_ids = T1 ids, attention_mask = T1 mask, labels = ys\<rparr>
      \<and> length ids = 128 \<and> length mask = 128
      \<and> int (length ys) = 3 \<and> sum_list ys = 1
      \<and> length (filter (\<lambda>y. y = 1) ys) = 1
      \<and> length (filter (\<lambda>y. y = 0) ys) = length ys - 1"
  using C1_getitem_shapes[of example_env "''train.csv''" example_hparams True
      "example_dataset example_hparams" 2 "''it is ok''" 2 0]
    example_init[of 3 True]
  by (simp add: example_hparams_def example_dataset_def example_frame_def example_tokenizer_def
      len_def subscript_def dict_get_def)

text \<open>
  Claim C1 as stated, for every valid index, does not hold. In the three-row data set
  with \<open>num_classes = 2\<close>, index 1 (label \<open>mixed\<close>) raises \<open>KeyError\<close> and index 2
  (label \<open>neutral\<close>, class index 2) raises \<open>RuntimeError\<close> in \<open>one_hot\<close>. In the data
  set with an empty and a numeric sentence cell, indices 0 and 1 make the tokenizer
  raise \<open>TypeError\<close>. With a tokenizer that has no padding token, index 0 raises
  \<open>ValueError\<close>. None of them returns an item.
\<close>

theorem C1_valid_index_counterexample:
  "len (example_dataset (example_hparams\<lparr>num_classes := 2\<rparr>)) = 3
   \<and> getitem (example_dataset (example_hparams\<lparr>num_classes := 2\<rparr>)) 1 = Inl KeyError
   \<and> getitem (example_dataset (example_hparams\<lparr>num_classes := 2\<rparr>)) 2 = Inl RuntimeError
   \<and> len example_dataset_na = 2
   \<and> getitem example_dataset_na 0 = Inl TypeError
   \<and> getitem example_dataset_na 1 = Inl TypeError
   \<and> len example_dataset_nopad = 3
   \<and> getitem example_dataset_nopad 0 = Inl ValueError"
  by (simp add: getitem_def iloc_def bindE_def subscript_def dict_get_def one_hot_def len_def
      encode_plus_def example_dataset_def example_dataset_na_def example_dataset_nopad_def
      example_hparams_def example_frame_def example_tokenizer_def)

text \<open>
  Claim C2. For an adapter built by the constructor, a row whose label cell is not
  \<open>positive\<close>, \<open>negative\<close> or \<open>neutral\<close> makes \<open>getitem\<close> return the exception
  \<open>KeyError\<close> itself, with no fallback value, at the row's index and at the negative
  index that addresses the same row.
\<close>

theorem C2_unknown_label_KeyError:
  assumes init: "CSLMDataset_init env CSVPath hp is_train = Inr self"
    and row: "i < length (data self)"
    and lab: "snd (data self ! i) \<notin> {Str ''positive'', Str ''negative'', Str ''neutral''}"
  shows "getitem self (int i) = Inl KeyError \<and> getitem self (int i - len self) = Inl KeyError"
proof -
  have look: "subscript (labels2num self) (snd (data self ! i)) = Inl KeyError"
    using lab init_fields(2)[OF init]
    by (cases "snd (data self ! i)") (simp_all add: subscript_def dict_get_def)
  have a: "getitem self (int i) = Inl KeyError"
    using row look by (simp add: getitem_row len_def bindE_def)
  have "nat (len self + (int i - len self)) = i"
    by simp
  then have b: "getitem self (int i - len self) = Inl KeyError"
    using row look getitem_row[of self "int i - len self"]
    by (simp add: len_def bindE_def)
  show ?thesis using a b by simp
qed

theorem C2_unknown_label_KeyError_witness:
  "getitem (example_dataset example_hparams) 1 = Inl KeyError
   \<and> getitem (example_dataset example_hparams) (- 2) = Inl KeyError"
  using C2_unknown_label_KeyError[of example_env "''train.csv''" example_hparams True
      "example_dataset example_hparams" 1]
    example_init[of 3 True]
  by (simp add: example_hparams_def example_dataset_def example_frame_def len_def)

text \<open>
  Claim C9 as stated, for every index outside \<open>[0, len)\<close>, does not hold: index \<open>-1\<close>
  is outside that range and \<open>getitem\<close> returns the last row (label \<open>neutral\<close>).
\<close>

theorem C9_negative_index_counterexample:
  "\<not> (0 \<le> (- 1 :: int) \<and> - 1 < len (example_dataset example_hparams))
   \<and> map_sum id labels (getitem (example_dataset example_hparams) (- 1)) = Inr [0, 0, 1]"
  by (simp add: getitem_def iloc_def bindE_def subscript_def dict_get_def one_hot_def len_def
      to_float_def encode_plus_def example_dataset_def example_hparams_def example_frame_def
      example_tokenizer_def Let_def upt_conv_Cons)

text \<open>
  Claim C9, as the code has it. \<open>getitem\<close> fails with \<open>IndexError\<close> exactly for the
  indices outside \<open>[-len, len)\<close>; an index in \<open>[-len, 0)\<close> counts from the end and gives
  what index \<open>idx + len\<close> gives.
\<close>

theorem C9_index_out_of_bounds:
  "(getitem self idx = Inl IndexError \<longleftrightarrow> idx < - len self \<or> len self \<le> idx)
   \<and> (- len self \<le> idx \<and> idx < 0 \<longrightarrow> getitem self idx = getitem self (idx + len self))"
proof -
  have a: "getitem self idx = Inl IndexError \<longleftrightarrow> idx < - len self \<or> len self \<le> idx"
    using getitem_IndexError[of idx self] getitem_row_not_IndexError[of self idx]
    by fastforce
  have b: "getitem self idx = getitem self (idx + len self)" if "- len self \<le> idx" "idx < 0"
  proof -
    have "0 \<le> idx + len self" "idx + len self < len self" "idx < len self"
      using that by (auto simp: len_def)
    then show ?thesis
      using that getitem_row[of self idx] getitem_row[of self "idx + len self"]
      by (simp add: add.commute)
  qed
  show ?thesis using a b by blast
qed

theorem C9_index_out_of_bounds_witness:
  "getitem (example_dataset example_hparams) 3 = Inl IndexError
   \<and> getitem (example_dataset example_hparams) (- 4) = Inl IndexError
   \<and> getitem (example_dataset example_hparams) (- 1) = getitem (example_dataset example_hparams) 2"
  using C9_index_out_of_bounds[of "example_dataset example_hparams" 3]
    C9_index_out_of_bounds[of "example_dataset example_hparams" "- 4"]
    C9_index_out_of_bounds[of "example_dataset example_hparams" "- 1"]
  by (simp add: len_def example_dataset_def example_frame_def)

text \<open>
  Claim C10. The constructor's result does not depend on \<open>is_train\<close>: with the same
  file, hub and hyperparameters, two values of \<open>is_train\<close> give the same outcome (the
  same failure, or adapters equal in every field), hence the same \<open>len\<close> and the same
  \<open>getitem\<close> at every index.
\<close>

theorem C10_is_train_irrelevant:
  "CSLMDataset_init env CSVPath hp a = CSLMDataset_init env CSVPath hp b
   \<and> (\<forall>d1 d2. CSLMDataset_init env CSVPath hp a = Inr d1
          \<and> CSLMDataset_init env CSVPath hp b = Inr d2
        \<longrightarrow> len d1 = len d2 \<and> (\<forall>i. getitem d1 i = getitem d2 i))"
  by (auto simp: CSLMDataset_init_def)

theorem C10_is_train_irrelevant_witness:
  "CSLMDataset_init example_env ''train.csv'' example_hparams True
     = CSLMDataset_init example_env ''train.csv'' example_hparams False
   \<and> len (example_dataset example_hparams) = len (example_dataset example_hparams)
   \<and> getitem (example_dataset example_hparams) 0 = getitem (example_dataset example_hparams) 0"
  using C10_is_train_irrelevant[of example_env "''train.csv''" example_hparams True False]
  by simp

section \<open>Properties of the training module\<close>

lemma example_model_init:
  "n = 2 \<or> n = 3 \<Longrightarrow> LightningModel_init example_hub (example_hparams\<lparr>num_classes := n\<rparr>) = Inr (example_model n)"
  by (auto simp: LightningModel_init_def example_hub_def example_network_def example_hparams_def
      example_model_def bindE_def Accuracy_def Let_def)

lemma str_in_simps:
  "str_in s [] = (s = [])"
  "str_in s (c # t) = (prefix s (c # t) \<or> str_in s t)"
  by (simp_all add: str_in_def sublist_Cons_right)

lemma bindE_Inr: "bindE m f = Inr y \<longleftrightarrow> (\<exists>x. m = Inr x \<and> f x = Inr y)"
  by (cases m) (auto simp: bindE_def)

lemma step_cases:
  "(\<exists>e. training_step self b i = Inl e \<and> validation_step self b j k = Inl e
        \<and> test_step self b j' k' = Inl e)
   \<or> (\<exists>loss acc. training_step self b i = Inr [(''loss'', loss), (''acc'', acc)]
        \<and> validation_step self b j k = Inr [(''val_loss'', loss), (''val_acc'', acc)]
        \<and> test_step self b j' k' = Inr [(''test_loss'', loss), (''test_acc'', acc)])"
  by (auto simp: training_step_def validation_step_def test_step_def Let_def bindE_def
      split: sum.splits)

lemma init_multiclass:
  assumes "LightningModel_init hub cfg = Inr self" "num_classes cfg \<noteq> 2"
  shows "config self = cfg" "metric_task (accuracy self) = Multiclass"
    "metric_num_classes (accuracy self) = num_classes cfg"
  using assms
  by (auto simp: LightningModel_init_def bindE_Inr Accuracy_def Let_def split: if_splits)

lemma init_binary:
  assumes "LightningModel_init hub cfg = Inr self" "num_classes cfg = 2"
  shows "config self = cfg" "metric_task (accuracy self) = Binary"
  using assms
  by (auto simp: LightningModel_init_def bindE_Inr Accuracy_def Let_def split: if_splits)

lemma mapE_length: "mapE f xs = Inr ys \<Longrightarrow> length ys = length xs"
  by (induction xs arbitrary: ys) (auto simp: bindE_Inr)

lemma metric_call_multiclass:
  assumes "metric_task m = Multiclass" "metric_call m preds target = Inr acc"
  shows "\<exists>pred_classes. argmax preds = Inr pred_classes \<and> length preds = length target
     \<and> acc = Val (if preds = [] then 0
           else real (length (filter (\<lambda>(p, t). p = t) (zip pred_classes target)))
                / real (length preds))"
  using assms
  by (auto simp: metric_call_def bindE_Inr split: if_splits)

lemma training_step_Inr:
  assumes "training_step self b i = Inr out"
  shows "\<exists>preds true_classes acc loss.
      view (logits (model self) (batch_input_ids b) (batch_attention_mask b))
        (num_classes (config self)) = Inr preds
    \<and> argmax (batch_labels b) = Inr true_classes
    \<and> metric_call (accuracy self) preds true_classes = Inr acc
    \<and> loss_fn preds (batch_labels b) = Inr loss
    \<and> out = [(''loss'', loss), (''acc'', acc)]"
  using assms
  by (auto simp: training_step_def forward_def Let_def bindE_Inr)

text \<open>
  The multi-class path. For a module built by the constructor with a number of classes
  other than 2, whenever the training step returns, its accuracy is the share of batch
  rows on which the argmax over classes of the raw, non-softmaxed scores equals the
  argmax of the one-hot label row (0 for an empty batch); the validation and the test
  step return the same accuracy.
\<close>

lemma multiclass_batch_accuracy:
  assumes init: "LightningModel_init hub cfg = Inr self"
    and multi: "num_classes cfg \<noteq> 2"
    and step: "training_step self b i = Inr out"
  shows "\<exists>preds pred_classes true_classes acc.
      view (logits (model self) (batch_input_ids b) (batch_attention_mask b)) (num_classes cfg)
        = Inr preds
    \<and> argmax preds = Inr pred_classes
    \<and> argmax (batch_labels b) = Inr true_classes
    \<and> length pred_classes = length true_classes
    \<and> acc = Val (if preds = [] then 0
           else real (length (filter (\<lambda>(p, t). p = t) (zip pred_classes true_classes)))
                / real (length preds))
    \<and> dict_get out ''acc'' = Inr acc
    \<and> (\<exists>loss. validation_step self b j k = Inr [(''val_loss'', loss), (''val_acc'', acc)])
    \<and> (\<exists>loss. test_step self b j' k' = Inr [(''test_loss'', loss), (''test_acc'', acc)])"
proof -
  obtain preds true_classes acc loss where
    v: "view (logits (model self) (batch_input_ids b) (batch_attention_mask b))
          (num_classes (config self)) = Inr preds"
    and t: "argmax (batch_labels b) = Inr true_classes"
    and m: "metric_call (accuracy self) preds true_classes = Inr acc"
    and out: "out = [(''loss'', loss), (''acc'', acc)]"
    using training_step_Inr[OF step] by blast
  obtain pred_classes where
    p: "argmax preds = Inr pred_classes"
    and n: "length preds = length true_classes"
    and a: "acc = Val (if preds = [] then 0
           else real (length (filter (\<lambda>(p, t). p = t) (zip pred_classes true_classes)))
                / real (length preds))"
    using metric_call_multiclass[OF init_multiclass(2)[OF init multi] m] by blast
  have len: "length pred_classes = length true_classes"
    using mapE_length[of argmax_row preds pred_classes] p n by (simp add: argmax_def)
  have get: "dict_get out ''acc'' = Inr acc"
    using out by (simp add: dict_get_def)
  have others: "validation_step self b j k = Inr [(''val_loss'', loss), (''val_acc'', acc)]
      \<and> test_step self b j' k' = Inr [(''test_loss'', loss), (''test_acc'', acc)]"
    using step_cases[of self b i j k j' k'] step out by auto
  show ?thesis
    using v p t len a get others init_multiclass(1)[OF init multi] by blast
qed

text \<open>
  The specification's example: raw scores \<open>[[2,1,0],[0,1,2]]\<close>, one-hot labels
  \<open>[[1,0,0],[0,0,1]]\<close>, three classes; predicted classes \<open>[0,2]\<close>, true classes
  \<open>[0,2]\<close>, accuracy 1.
\<close>

lemma multiclass_batch_accuracy_example:
  "view (logits (model (example_model 3)) (batch_input_ids example_batch)
      (batch_attention_mask example_batch)) 3 = Inr [[2, 1, 0], [0, 1, 2]]
   \<and> argmax [[2, 1, 0], [0, 1, 2]] = Inr [0, 2]
   \<and> argmax (batch_labels example_batch) = Inr [0, 2]
   \<and> (\<exists>loss. training_step (example_model 3) example_batch 0 = Inr [(''loss'', loss), (''acc'', Val 1)])
   \<and> (\<exists>loss. validation_step (example_model 3) example_batch 0 0
         = Inr [(''val_loss'', loss), (''val_acc'', Val 1)])
   \<and> (\<exists>loss. test_step (example_model 3) example_batch 0 0
         = Inr [(''test_loss'', loss), (''test_acc'', Val 1)])"
proof -
  have init: "LightningModel_init example_hub (example_hparams\<lparr>num_classes := 3\<rparr>)
      = Inr (example_model 3)"
    by (simp add: example_model_init)
  have multi: "num_classes (example_hparams\<lparr>num_classes := 3\<rparr>) \<noteq> 2"
    by simp
  have v: "view (logits (model (example_model 3)) (batch_input_ids example_batch)
      (batch_attention_mask example_batch)) 3 = Inr [[2, 1, 0], [0, 1, 2]]"
    by (simp add: example_model_def example_network_def view_def Let_def upt_conv_Cons)
  have p: "argmax [[2, 1, 0], [0, 1, 2]] = Inr [0, 2]"
    by (simp add: argmax_def bindE_def)
  have t: "argmax (batch_labels example_batch) = Inr [0, 2]"
    by (simp add: argmax_def bindE_def example_batch_def)
  obtain out where step: "training_step (example_model 3) example_batch 0 = Inr out"
    by (simp add: training_step_def example_model_def example_batch_def example_network_def
        forward_def view_def Let_def bindE_def argmax_def metric_call_def loss_fn_def
        upt_conv_Cons example_hparams_def mean_def)
  from multiclass_batch_accuracy[OF init multi step, of 0 0 0 0]
  obtain acc loss1 loss2 where
    acc: "acc = Val 1" 
    and g: "dict_get out ''acc'' = Inr acc"
    and vs: "validation_step (example_model 3) example_batch 0 0
         = Inr [(''val_loss'', loss1), (''val_acc'', acc)]"
    and ts: "test_step (example_model 3) example_batch 0 0
         = Inr [(''test_loss'', loss2), (''test_acc'', acc)]"
    using v p t by auto
  obtain loss where "out = [(''loss'', loss), (''acc'', acc)]"
    using training_step_Inr[OF step] g by (auto simp: dict_get_def)
  then show ?thesis
    using v p t step acc vs ts by auto
qed

text \<open>
  Claim C6 against the code. The comment in \<open>training_step\<close> says that the metric
  reduces float predictions by argmax along the class dimension, and the multi-class
  path does so. With \<open>num_classes = 2\<close> the constructor selects the binary metric
  instead, which wants predictions and targets of one shape: a module built with two
  classes returns no accuracy on any batch; each of its three steps raises.
\<close>

theorem C6_binary_step_raises:
  assumes init: "LightningModel_init hub cfg = Inr self"
    and two: "num_classes cfg = 2"
  shows "(\<exists>e. training_step self b i = Inl e)
    \<and> (\<exists>e. validation_step self b j k = Inl e)
    \<and> (\<exists>e. test_step self b j' k' = Inl e)"
proof -
  have bin: "metric_task (accuracy self) = Binary"
    by (rule init_binary(2)[OF init two])
  have "metric_call (accuracy self) preds target = Inl RuntimeError" for preds target
    using bin by (simp add: metric_call_def)
  then have "\<exists>e. training_step self b i = Inl e"
    by (auto simp: training_step_def Let_def bindE_def split: sum.splits)
  then show ?thesis
    using step_cases[of self b i j k j' k'] by auto
qed

text \<open>
  The failing input: two classes, raw scores \<open>[[2,1],[0,1]]\<close>, one-hot labels
  \<open>[[1,0],[0,1]]\<close>. The argmax classes are \<open>[0,1]\<close> on both sides, so the accuracy by
  argmax comparison would be 1; the steps raise \<open>RuntimeError\<close>.
\<close>

theorem C6_binary_step_raises_witness:
  "LightningModel_init example_hub (example_hparams\<lparr>num_classes := 2\<rparr>) = Inr (example_model 2)
   \<and> view (logits (model (example_model 2)) (batch_input_ids example_batch2)
        (batch_attention_mask example_batch2)) 2 = Inr [[2, 1], [0, 1]]
   \<and> argmax [[2, 1], [0, 1]] = Inr [0, 1]
   \<and> argmax (batch_labels example_batch2) = Inr [0, 1]
   \<and> training_step (example_model 2) example_batch2 0 = Inl RuntimeError
   \<and> validation_step (example_model 2) example_batch2 0 0 = Inl RuntimeError
   \<and> test_step (example_model 2) example_batch2 0 0 = Inl RuntimeError"
proof -
  have init: "LightningModel_init example_hub (example_hparams\<lparr>num_classes := 2\<rparr>)
      = Inr (example_model 2)"
    by (simp add: example_model_init)
  have two: "num_classes (example_hparams\<lparr>num_classes := 2\<rparr>) = 2"
    by simp
  have ev: "view (logits (model (example_model 2)) (batch_input_ids example_batch2)
        (batch_attention_mask example_batch2)) 2 = Inr [[2, 1], [0, 1]]
   \<and> argmax [[2, 1], [0, 1]] = Inr [0, 1]
   \<and> argmax (batch_labels example_batch2) = Inr [0, 1]
   \<and> training_step (example_model 2) example_batch2 0 = Inl RuntimeError"
    by (simp add: training_step_def example_model_def example_batch2_def
        example_network_def forward_def view_def Let_def bindE_def argmax_def metric_call_def
        upt_conv_Cons example_hparams_def)
  have "validation_step (example_model 2) example_batch2 0 0 = Inl RuntimeError
      \<and> test_step (example_model 2) example_batch2 0 0 = Inl RuntimeError"
    using C6_binary_step_raises[OF init two, of example_batch2 0 0 0 0 0] ev
      step_cases[of "example_model 2" example_batch2 0 0 0 0 0]
    by auto
  then show ?thesis
    using init ev by simp
qed

text \<open>
  Claim C8. On the same module and the same batch, the training, validation and test
  steps either all raise the same exception, or return the same loss and the same
  accuracy, under the keys \<open>loss\<close>/\<open>acc\<close>, \<open>val_loss\<close>/\<open>val_acc\<close> and
  \<open>test_loss\<close>/\<open>test_acc\<close>.
\<close>

theorem C8_steps_agree:
  "(\<exists>e. training_step self b i = Inl e \<and> validation_step self b j k = Inl e
        \<and> test_step self b j' k' = Inl e)
   \<or> (\<exists>loss acc. training_step self b i = Inr [(''loss'', loss), (''acc'', acc)]
        \<and> validation_step self b j k = Inr [(''val_loss'', loss), (''val_acc'', acc)]
        \<and> test_step self b j' k' = Inr [(''test_loss'', loss), (''test_acc'', acc)])"
proof (cases "training_step self b i")
  case (Inl e)
  then show ?thesis
    by (auto simp: training_step_def validation_step_def test_step_def Let_def bindE_def
        split: sum.splits)
next
  case (Inr out)
  then show ?thesis
    by (auto simp: training_step_def validation_step_def test_step_def Let_def bindE_def
        split: sum.splits)
qed

theorem C8_steps_agree_witness:
  "\<exists>loss. training_step (example_model 3) example_batch 0 = Inr [(''loss'', loss), (''acc'', Val 1)]
        \<and> validation_step (example_model 3) example_batch 0 0
            = Inr [(''val_loss'', loss), (''val_acc'', Val 1)]
        \<and> test_step (example_model 3) example_batch 0 0
            = Inr [(''test_loss'', loss), (''test_acc'', Val 1)]"
proof -
  have "\<exists>loss. training_step (example_model 3) example_batch 0 = Inr [(''loss'', loss), (''acc'', Val 1)]"
    by (simp add: training_step_def example_model_def example_batch_def example_network_def
        forward_def view_def Let_def bindE_def argmax_def metric_call_def loss_fn_def
        upt_conv_Cons example_hparams_def mean_def)
  then show ?thesis
    using C8_steps_agree[of "example_model 3" example_batch 0 0 0 0 0] by auto
qed

lemma mset_filter_partition:
  "mset (map f (filter (\<lambda>x. \<not> P x) xs)) + mset (map f (filter P xs)) = mset (map f xs)"
  by (induction xs) auto

lemma any_in_no_decay:
  "any_in [''bias'', ''LayerNorm.weight''] n \<longleftrightarrow> str_in ''bias'' n \<or> str_in ''LayerNorm.weight'' n"
  by (simp add: any_in_def)

lemma configure_optimizers_eq:
  "configure_optimizers self =
     ([\<lparr>param_groups =
          [\<lparr>params = map snd (filter (\<lambda>(n, p). \<not> (str_in ''bias'' n \<or> str_in ''LayerNorm.weight'' n))
                         (named_parameters (model self))),
            group_weight_decay = weight_decay (config self)\<rparr>,
           \<lparr>params = map snd (filter (\<lambda>(n, p). str_in ''bias'' n \<or> str_in ''LayerNorm.weight'' n)
                         (named_parameters (model self))),
            group_weight_decay = 0\<rparr>],
         optimizer_lr = lr (config self), eps = 1 / 10 ^ 8\<rparr>],
      [\<lparr>scheduler =
          \<lparr>schedule_optimizer =
             \<lparr>param_groups =
               [\<lparr>params = map snd (filter (\<lambda>(n, p). \<not> (str_in ''bias'' n \<or> str_in ''LayerNorm.weight'' n))
                              (named_parameters (model self))),
                 group_weight_decay = weight_decay (config self)\<rparr>,
                \<lparr>params = map snd (filter (\<lambda>(n, p). str_in ''bias'' n \<or> str_in ''LayerNorm.weight'' n)
                              (named_parameters (model self))),
                 group_weight_decay = 0\<rparr>],
              optimizer_lr = lr (config self), eps = 1 / 10 ^ 8\<rparr>,
           num_warmup_steps = 5, num_training_steps = epochs (config self)\<rparr>,
        interval = ''step''\<rparr>])"
  by (simp add: configure_optimizers_def Let_def AdamW_def get_cosine_schedule_with_warmup_def
      any_in_no_decay)

text \<open>
  Claim C3. \<open>configure_optimizers\<close> builds one optimizer over exactly two parameter
  groups: the second holds the parameters whose name contains \<open>bias\<close> or
  \<open>LayerNorm.weight\<close> and has weight decay 0, the first holds all the others and has the
  configured weight decay. Together the groups hold every parameter exactly once, and
  they share no parameter when the parameters are distinct.
\<close>

theorem C3_parameter_partition:
  "\<exists>opt decayed undecayed.
      fst (configure_optimizers self) = [opt]
    \<and> param_groups opt = [decayed, undecayed]
    \<and> group_weight_decay decayed = weight_decay (config self)
    \<and> group_weight_decay undecayed = 0
    \<and> params undecayed = map snd (filter (\<lambda>(n, p). str_in ''bias'' n \<or> str_in ''LayerNorm.weight'' n)
          (named_parameters (model self)))
    \<and> params decayed = map snd (filter (\<lambda>(n, p). \<not> (str_in ''bias'' n \<or> str_in ''LayerNorm.weight'' n))
          (named_parameters (model self)))
    \<and> mset (params decayed) + mset (params undecayed) = mset (map snd (named_parameters (model self)))
    \<and> (\<forall>(n, p) \<in> set (named_parameters (model self)).
          if str_in ''bias'' n \<or> str_in ''LayerNorm.weight'' n
          then p \<in> set (params undecayed) else p \<in> set (params decayed))
    \<and> (distinct (map snd (named_parameters (model self)))
         \<longrightarrow> set (params decayed) \<inter> set (params undecayed) = {})"
proof -
  let ?nps = "named_parameters (model self)"
  let ?P = "\<lambda>(n :: string, p :: parameter). str_in ''bias'' n \<or> str_in ''LayerNorm.weight'' n"
  let ?Q = "\<lambda>(n :: string, p :: parameter). \<not> (str_in ''bias'' n \<or> str_in ''LayerNorm.weight'' n)"
  let ?d = "\<lparr>params = map snd (filter ?Q ?nps), group_weight_decay = weight_decay (config self)\<rparr>"
  let ?u = "\<lparr>params = map snd (filter ?P ?nps), group_weight_decay = 0\<rparr>"
  let ?opt = "\<lparr>param_groups = [?d, ?u], optimizer_lr = lr (config self), eps = 1 / 10 ^ 8\<rparr>"
  have neg: "?Q = (\<lambda>x. \<not> ?P x)"
    by auto
  have opt: "fst (configure_optimizers self) = [?opt]"
    by (simp add: configure_optimizers_eq)
  have part: "mset (params ?d) + mset (params ?u) = mset (map snd ?nps)"
    unfolding neg using mset_filter_partition[of snd ?P ?nps] by simp
  have mem: "\<forall>(n, p) \<in> set ?nps.
      if str_in ''bias'' n \<or> str_in ''LayerNorm.weight'' n
      then p \<in> set (params ?u) else p \<in> set (params ?d)"
    by force
  have disj: "distinct (map snd ?nps) \<longrightarrow> set (params ?d) \<inter> set (params ?u) = {}"
  proof
    assume "distinct (map snd ?nps)"
    then have "inj_on snd (set ?nps)"
      by (simp add: distinct_map)
    then show "set (params ?d) \<inter> set (params ?u) = {}"
      by (auto simp: inj_on_def)
  qed
  have all: "fst (configure_optimizers self) = [?opt]
    \<and> param_groups ?opt = [?d, ?u]
    \<and> group_weight_decay ?d = weight_decay (config self)
    \<and> group_weight_decay ?u = 0
    \<and> params ?u = map snd (filter ?P ?nps)
    \<and> params ?d = map snd (filter ?Q ?nps)
    \<and> mset (params ?d) + mset (params ?u) = mset (map snd ?nps)
    \<and> (\<forall>(n, p) \<in> set ?nps.
          if str_in ''bias'' n \<or> str_in ''LayerNorm.weight'' n
          then p \<in> set (params ?u) else p \<in> set (params ?d))
    \<and> (distinct (map snd ?nps) \<longrightarrow> set (params ?d) \<inter> set (params ?u) = {})"
    using opt part mem disj by simp
  show ?thesis
    by (intro exI) (rule all)
qed

theorem C3_parameter_partition_witness:
  "\<exists>opt. fst (configure_optimizers (example_model 3)) = [opt]
     \<and> map group_weight_decay (param_groups opt) = [1 / 100, 0]
     \<and> map (\<lambda>g. map entries (params g)) (param_groups opt)
         = [[[1, 2], [5, 6], [7, 8, 9]], [[3], [4], [10]]]"
  using C3_parameter_partition[of "example_model 3"]
  by (simp add: configure_optimizers_eq example_model_def example_network_def
      example_parameters_def example_hparams_def str_in_simps)






lemma mapE_dict_get:
  "mapE (\<lambda>x. dict_get x k) (map (\<lambda>r. [(k1, f r), (k2, g r)]) rs)
     = (if k = k1 then Inr (map f rs) else if k = k2 then Inr (map g rs)
        else if rs = [] then Inr [] else Inl KeyError)"
  by (induction rs) (auto simp: dict_get_def bindE_def)

lemma vals_Val: "vals (map Val xs) = Some xs"
  by (induction xs) auto

lemma tensor_mean_Val: "tensor_mean (map Val xs) = mean xs"
  by (simp add: tensor_mean_def vals_Val)

text \<open>
  Claim C5. Given the per-batch results of one pass, in order and at least one, each
  epoch-end function reports exactly two entries: the arithmetic mean of the losses
  under \<open>train/loss\<close>, \<open>val/loss\<close>, \<open>test/loss\<close> and, independently, the arithmetic
  mean of the accuracies under \<open>train/acc\<close>, \<open>val/acc\<close>, \<open>test/acc\<close>. Scalars are
  reals here; rounding of floating-point numbers is outside the model.
\<close>

theorem C5_epoch_mean:
  assumes "rs \<noteq> []"
  shows "training_epoch_end sink (map (\<lambda>(l, a). [(''loss'', Val l), (''acc'', Val a)]) rs)
      = Inr (sink @ [epoch_entry ''train/loss'' (Val (sum_list (map fst rs) / real (length rs))),
                     epoch_entry ''train/acc'' (Val (sum_list (map snd rs) / real (length rs)))])
    \<and> validation_epoch_end sink (map (\<lambda>(l, a). [(''val_loss'', Val l), (''val_acc'', Val a)]) rs)
      = Inr (sink @ [epoch_entry ''val/loss'' (Val (sum_list (map fst rs) / real (length rs))),
                     epoch_entry ''val/acc'' (Val (sum_list (map snd rs) / real (length rs)))])
    \<and> test_epoch_end sink (map (\<lambda>(l, a). [(''test_loss'', Val l), (''test_acc'', Val a)]) rs)
      = Inr (sink @ [epoch_entry ''test/loss'' (Val (sum_list (map fst rs) / real (length rs))),
                     epoch_entry ''test/acc'' (Val (sum_list (map snd rs) / real (length rs)))])"
proof -
  have split: "(\<lambda>(l, a). [(k1, Val l), (k2, Val a)]) = (\<lambda>r. [(k1, Val (fst r)), (k2, Val (snd r))])"
    for k1 k2 :: string
    by auto
  have m: "tensor_mean (map (\<lambda>r. Val (f r)) rs) = Val (sum_list (map f rs) / real (length rs))"
    for f :: "real \<times> real \<Rightarrow> real"
    using assms tensor_mean_Val[of "map f rs"] by (simp add: mean_def comp_def)
  have a: "training_epoch_end sink (map (\<lambda>(l, a). [(''loss'', Val l), (''acc'', Val a)]) rs)
      = Inr (sink @ [epoch_entry ''train/loss'' (Val (sum_list (map fst rs) / real (length rs))),
                     epoch_entry ''train/acc'' (Val (sum_list (map snd rs) / real (length rs)))])"
    unfolding split training_epoch_end_def
    by (simp add: mapE_dict_get bindE_def m self_log_def epoch_entry_def)
  have b: "validation_epoch_end sink (map (\<lambda>(l, a). [(''val_loss'', Val l), (''val_acc'', Val a)]) rs)
      = Inr (sink @ [epoch_entry ''val/loss'' (Val (sum_list (map fst rs) / real (length rs))),
                     epoch_entry ''val/acc'' (Val (sum_list (map snd rs) / real (length rs)))])"
    unfolding split validation_epoch_end_def
    by (simp add: mapE_dict_get bindE_def m self_log_def epoch_entry_def)
  have c: "test_epoch_end sink (map (\<lambda>(l, a). [(''test_loss'', Val l), (''test_acc'', Val a)]) rs)
      = Inr (sink @ [epoch_entry ''test/loss'' (Val (sum_list (map fst rs) / real (length rs))),
                     epoch_entry ''test/acc'' (Val (sum_list (map snd rs) / real (length rs)))])"
    unfolding split test_epoch_end_def
    by (simp add: mapE_dict_get bindE_def m self_log_def epoch_entry_def)
  show ?thesis using a b c by simp
qed

text \<open>The specification's example: per-batch losses 0.2, 0.4, 0.6 give the epoch loss 0.4.\<close>

theorem C5_epoch_mean_witness:
  "training_epoch_end []
      [[(''loss'', Val (2 / 10)), (''acc'', Val 1)],
       [(''loss'', Val (4 / 10)), (''acc'', Val (1 / 2))],
       [(''loss'', Val (6 / 10)), (''acc'', Val 0)]]
     = Inr [epoch_entry ''train/loss'' (Val (4 / 10)), epoch_entry ''train/acc'' (Val (1 / 2))]
   \<and> validation_epoch_end []
      [[(''val_loss'', Val (2 / 10)), (''val_acc'', Val 1)],
       [(''val_loss'', Val (4 / 10)), (''val_acc'', Val (1 / 2))],
       [(''val_loss'', Val (6 / 10)), (''val_acc'', Val 0)]]
     = Inr [epoch_entry ''val/loss'' (Val (4 / 10)), epoch_entry ''val/acc'' (Val (1 / 2))]
   \<and> test_epoch_end []
      [[(''test_loss'', Val (2 / 10)), (''test_acc'', Val 1)],
       [(''test_loss'', Val (4 / 10)), (''test_acc'', Val (1 / 2))],
       [(''test_loss'', Val (6 / 10)), (''test_acc'', Val 0)]]
     = Inr [epoch_entry ''test/loss'' (Val (4 / 10)), epoch_entry ''test/acc'' (Val (1 / 2))]"
  using C5_epoch_mean[of "[(2 / 10, 1), (4 / 10, 1 / 2), (6 / 10, 0)]" "[]"]
  by simp

text \<open>
  Claim C7. \<open>configure_optimizers\<close> returns one \<open>AdamW\<close> optimizer with the configured
  learning rate and epsilon \<open>1e-8\<close> over exactly the two parameter groups (the parameters
  whose name contains neither \<open>bias\<close> nor \<open>LayerNorm.weight\<close>, with the configured
  weight decay, then the others, with weight decay 0), and one schedule descriptor with
  interval \<open>step\<close> whose schedule is the cosine schedule on that optimizer with 5
  warm-up steps and as many training steps as the configured epochs: its factor rises
  linearly as \<open>t / 5\<close> before step 5, is 1 at step 5, follows half a cosine wave
  afterwards, and reaches 0 at step \<open>epochs\<close> when there are more than 5.
\<close>

theorem C7_optimizer_and_schedule:
  "\<exists>opt sc. configure_optimizers self = ([opt], [sc])
     \<and> opt = AdamW (param_groups opt) (lr (config self)) (1 / 10 ^ 8)
     \<and> param_groups opt =
         [\<lparr>params = map snd (filter (\<lambda>(n, p). \<not> (str_in ''bias'' n \<or> str_in ''LayerNorm.weight'' n))
                       (named_parameters (model self))),
           group_weight_decay = weight_decay (config self)\<rparr>,
          \<lparr>params = map snd (filter (\<lambda>(n, p). str_in ''bias'' n \<or> str_in ''LayerNorm.weight'' n)
                       (named_parameters (model self))),
           group_weight_decay = 0\<rparr>]
     \<and> optimizer_lr opt = lr (config self)
     \<and> eps opt = 1 / 10 ^ 8
     \<and> scheduler sc = get_cosine_schedule_with_warmup opt 5 (epochs (config self))
     \<and> schedule_optimizer (scheduler sc) = opt
     \<and> num_warmup_steps (scheduler sc) = 5
     \<and> num_training_steps (scheduler sc) = epochs (config self)
     \<and> interval sc = ''step''
     \<and> (\<forall>t. t < 5 \<longrightarrow> lr_lambda (scheduler sc) t = real_of_int t / 5)
     \<and> (\<forall>t. 5 \<le> t \<longrightarrow> lr_lambda (scheduler sc) t
           = max 0 ((1 + cos (pi * (real_of_int (t - 5)
                 / real_of_int (max 1 (epochs (config self) - 5))))) / 2))
     \<and> lr_lambda (scheduler sc) 5 = 1
     \<and> (5 < epochs (config self) \<longrightarrow> lr_lambda (scheduler sc) (epochs (config self)) = 0)"
proof -
  let ?d = "\<lparr>params = map snd (filter (\<lambda>(n, p). \<not> (str_in ''bias'' n \<or> str_in ''LayerNorm.weight'' n))
                (named_parameters (model self))),
             group_weight_decay = weight_decay (config self)\<rparr>"
  let ?u = "\<lparr>params = map snd (filter (\<lambda>(n, p). str_in ''bias'' n \<or> str_in ''LayerNorm.weight'' n)
                (named_parameters (model self))),
             group_weight_decay = 0\<rparr>"
  let ?opt = "\<lparr>param_groups = [?d, ?u], optimizer_lr = lr (config self), eps = 1 / 10 ^ 8\<rparr>"
  let ?s = "\<lparr>schedule_optimizer = ?opt, num_warmup_steps = 5,
             num_training_steps = epochs (config self)\<rparr>"
  let ?sc = "\<lparr>scheduler = ?s, interval = ''step''\<rparr>"
  have co: "configure_optimizers self = ([?opt], [?sc])"
    by (rule configure_optimizers_eq)
  have warm: "\<forall>t. t < 5 \<longrightarrow> lr_lambda ?s t = real_of_int t / 5"
    by (simp add: lr_lambda_def)
  have decay: "\<forall>t. 5 \<le> t \<longrightarrow> lr_lambda ?s t
           = max 0 ((1 + cos (pi * (real_of_int (t - 5)
                 / real_of_int (max 1 (epochs (config self) - 5))))) / 2)"
    by (simp add: lr_lambda_def Let_def)
  have top: "lr_lambda ?s 5 = 1"
    by (simp add: lr_lambda_def Let_def)
  have bottom: "5 < epochs (config self) \<longrightarrow> lr_lambda ?s (epochs (config self)) = 0"
    by (simp add: lr_lambda_def Let_def)
  have all: "configure_optimizers self = ([?opt], [?sc])
     \<and> ?opt = AdamW (param_groups ?opt) (lr (config self)) (1 / 10 ^ 8)
     \<and> param_groups ?opt = [?d, ?u]
     \<and> optimizer_lr ?opt = lr (config self)
     \<and> eps ?opt = 1 / 10 ^ 8
     \<and> scheduler ?sc = get_cosine_schedule_with_warmup ?opt 5 (epochs (config self))
     \<and> schedule_optimizer (scheduler ?sc) = ?opt
     \<and> num_warmup_steps (scheduler ?sc) = 5
     \<and> num_training_steps (scheduler ?sc) = epochs (config self)
     \<and> interval ?sc = ''step''
     \<and> (\<forall>t. t < 5 \<longrightarrow> lr_lambda (scheduler ?sc) t = real_of_int t / 5)
     \<and> (\<forall>t. 5 \<le> t \<longrightarrow> lr_lambda (scheduler ?sc) t
           = max 0 ((1 + cos (pi * (real_of_int (t - 5)
                 / real_of_int (max 1 (epochs (config self) - 5))))) / 2))
     \<and> lr_lambda (scheduler ?sc) 5 = 1
     \<and> (5 < epochs (config self) \<longrightarrow> lr_lambda (scheduler ?sc) (epochs (config self)) = 0)"
    using co warm decay top bottom
    by (simp add: AdamW_def get_cosine_schedule_with_warmup_def)
  show ?thesis
    by (intro exI) (rule all)
qed

theorem C7_optimizer_and_schedule_witness:
  "\<exists>opt sc. configure_optimizers (example_model 3) = ([opt], [sc])
     \<and> map (\<lambda>g. map entries (params g)) (param_groups opt)
         = [[[1, 2], [5, 6], [7, 8, 9]], [[3], [4], [10]]]
     \<and> map group_weight_decay (param_groups opt) = [1 / 100, 0]
     \<and> optimizer_lr opt = 1 / 100000
     \<and> eps opt = 1 / 100000000
     \<and> schedule_optimizer (scheduler sc) = opt
     \<and> num_warmup_steps (scheduler sc) = 5
     \<and> num_training_steps (scheduler sc) = 10
     \<and> interval sc = ''step''
     \<and> lr_lambda (scheduler sc) 2 = 2 / 5
     \<and> lr_lambda (scheduler sc) 5 = 1
     \<and> lr_lambda (scheduler sc) 10 = 0"
proof -
  have cfg: "lr (config (example_model 3)) = 1 / 100000"
      "weight_decay (config (example_model 3)) = 1 / 100"
      "epochs (config (example_model 3)) = 10"
    by (simp_all add: example_model_def example_hparams_def)
  have nps: "named_parameters (model (example_model 3)) = freeze_loop example_parameters"
    by (simp add: example_model_def example_network_def)
  show ?thesis
    using C7_optimizer_and_schedule[of "example_model 3"]
    apply (elim exE conjE)
    apply (intro exI conjI)
               apply assumption
    by (simp_all add: cfg nps example_parameters_def str_in_simps)
qed

end
